theory Spec2Isabelle
  imports Complex_Main "HOL-Library.Word" "HOL-Library.Log_Nat"
begin

unbundle bit_operations_syntax

section \<open>Torque decoders\<close>

text \<open>
  The decoders of \<^verbatim>\<open>src/main.py\<close> receive the list of response messages of one poll.
  Only the field \<^verbatim>\<open>data\<close> of a message is read: a byte array. Indexing a byte array out
  of range raises \<^verbatim>\<open>IndexError\<close> in Python, so a decoder returns either the exception or
  its value, and the value is \<^verbatim>\<open>None\<close> ("no data") or an integer.
\<close>

datatype py_error = IndexError | KeyboardInterrupt | CancelledError | SystemExit nat

record message =
  data :: "8 word list"

text \<open>\<^verbatim>\<open>xs[i]\<close> for a literal index \<open>i \<ge> 0\<close>.\<close>

definition index :: "'a list \<Rightarrow> nat \<Rightarrow> py_error + 'a" where
  "index xs i = (if i < length xs then Inr (xs ! i) else Inl IndexError)"

text \<open>
  Modelled from the spec: \<^verbatim>\<open>bytes_to_int\<close> is imported from \<^verbatim>\<open>obd.utils\<close> and is not part
  of the source; the decoders use it to read one data byte "as an unsigned integer in
  [0,255]".
\<close>

definition bytes_to_int :: "8 word \<Rightarrow> int" where
  "bytes_to_int b = uint b"

fun decode_percent_torque :: "message list \<Rightarrow> py_error + int option" where
  "decode_percent_torque [] = Inr None"
| "decode_percent_torque (msg # _) =
     (case index (data msg) 0 of
        Inl e \<Rightarrow> Inl e
      | Inr b0 \<Rightarrow>
          (let A = bytes_to_int b0;
               torque_percent = A - 125
           in Inr (Some torque_percent)))"

fun decode_reference_torque :: "message list \<Rightarrow> py_error + int option" where
  "decode_reference_torque [] = Inr None"
| "decode_reference_torque (msg # _) =
     (case index (data msg) 0 of
        Inl e \<Rightarrow> Inl e
      | Inr b0 \<Rightarrow>
          (let A = bytes_to_int b0 in
           case index (data msg) 1 of
             Inl e \<Rightarrow> Inl e
           | Inr b1 \<Rightarrow>
               (let B = bytes_to_int b1;
                    torque = push_bit 8 A + B
                in Inr (Some torque))))"

section \<open>Python floats and their formatting\<close>

text \<open>
  The horsepower arithmetic is carried out on Python floats (IEEE 754 binary64). A float
  is modelled by the rational number it denotes, and every arithmetic operation rounds
  its exact result to the nearest number with a 53-bit significand, ties to even
  (\<open>fl\<close>). The exponent is not bounded: overflow to infinity, subnormal numbers, NaN and
  the sign of zero are outside this model.
\<close>

definition round_half_even :: "rat \<Rightarrow> int" where
  "round_half_even q =
     (let f = \<lfloor>q\<rfloor>; r = q - of_int f
      in if r < 1 / 2 then f else if 1 / 2 < r then f + 1 else if even f then f else f + 1)"

text \<open>The exponent \<open>e\<close> with \<open>2 ^ e \<le> x < 2 ^ (e + 1)\<close>, for \<open>x > 0\<close>.\<close>

definition binary_exponent :: "rat \<Rightarrow> int" where
  "binary_exponent x =
     (let (p, q) = quotient_of x; e0 = bitlen p - bitlen q
      in if power_int 2 e0 \<le> x then e0 else e0 - 1)"

definition fl :: "rat \<Rightarrow> rat" where
  "fl x = (if x = 0 then 0
           else let u = power_int 2 (binary_exponent \<bar>x\<bar> - 52)
                in of_int (round_half_even (x / u)) * u)"

text \<open>\<^verbatim>\<open>a / b\<close> and \<^verbatim>\<open>a * b\<close> on floats; the divisors of the source are non-zero constants.\<close>

definition fdiv :: "rat \<Rightarrow> rat \<Rightarrow> rat" where
  "fdiv a b = fl (a / b)"

definition fmul :: "rat \<Rightarrow> rat \<Rightarrow> rat" where
  "fmul a b = fl (a * b)"

text \<open>\<open>a\<close> approximates \<open>b\<close> with relative error at most \<open>r\<close>.\<close>

definition approximates :: "rat \<Rightarrow> rat \<Rightarrow> rat \<Rightarrow> bool" where
  "approximates r a b = (\<bar>a - b\<bar> \<le> \<bar>b\<bar> * r)"

text \<open>The unit roundoff of binary64.\<close>

definition unit_roundoff :: rat where
  "unit_roundoff = power_int 2 (- 53)"

definition digit :: "int \<Rightarrow> char" where
  "digit d = ''0123456789'' ! nat d"

text \<open>The decimal digits of a non-negative integer (\<^verbatim>\<open>str(n)\<close>).\<close>

function show_int :: "int \<Rightarrow> string" where
  "show_int n = (if n < 10 then [digit n] else show_int (n div 10) @ [digit (n mod 10)])"
  by pat_completeness auto
termination
  by (relation "measure nat") auto

declare show_int.simps [simp del]

text \<open>
  The format specification \<^verbatim>\<open>:.2f\<close>: the exact value of the float is rounded to two
  decimals, ties to even, and written with its sign, its integer digits and two decimals.
\<close>

definition format_2f :: "rat \<Rightarrow> string" where
  "format_2f x =
     (let n = round_half_even (\<bar>x\<bar> * 100)
      in (if x < 0 then ''-'' else '''') @ show_int (n div 100) @ ''.''
         @ [digit (n mod 100 div 10), digit (n mod 10)])"

section \<open>Observable actions\<close>

text \<open>
  What the program does is recorded as the list of its actions in order: the lines it
  prints and its calls into the OBD library and the socket library. A printed line is
  either a fixed text or an f-string with one float formatted by \<^verbatim>\<open>:.2f\<close>.
\<close>

datatype line = Text string | F2 string rat string

fun render :: "line \<Rightarrow> string" where
  "render (Text s) = s"
| "render (F2 s x t) = s @ format_2f x @ t"

datatype command = commands_RPM | ACTUAL_ENGINE_PERCENT_TORQUE | ENGINE_REF_TORQUE

fun name :: "command \<Rightarrow> string" where
  "name commands_RPM = ''RPM''"
| "name ACTUAL_ENGINE_PERCENT_TORQUE = ''ACTUAL_ENGINE_PERCENT_TORQUE''"
| "name ENGINE_REF_TORQUE = ''ENGINE_REF_TORQUE''"

datatype action =
    Print line
  | Print_ports "string list"
  | Open_serial string
  | Tcp_check string int
  | Open_socket string int
  | Add_custom command
  | Watch command
  | Set_poll_interval rat
  | Start
  | Stop

section \<open>Horsepower calculation and the callbacks\<close>

text \<open>The dictionary \<^verbatim>\<open>data\<close> of \<^verbatim>\<open>main\<close>, with its three fixed keys.\<close>

record telemetry =
  RPM :: "rat option"
  Torque_Percent :: "rat option"
  Reference_Torque :: "rat option"

definition data0 :: telemetry where
  "data0 = \<lparr>RPM = None, Torque_Percent = None, Reference_Torque = None\<rparr>"

text \<open>\<^verbatim>\<open>process_data\<close> only prints: its result is the list of the lines it prints.\<close>

definition process_data :: "telemetry \<Rightarrow> line list" where
  "process_data d =
     (if RPM d \<noteq> None \<and> Torque_Percent d \<noteq> None \<and> Reference_Torque d \<noteq> None then
        (let actual_torque_nm = fmul (fdiv (the (Torque_Percent d)) 100) (the (Reference_Torque d));
             horsepower = fdiv (fmul actual_torque_nm (the (RPM d))) 7127
         in [F2 ''RPM: '' (the (RPM d)) '' RPM'',
             F2 ''Torque: '' actual_torque_nm '' Nm'',
             F2 ''Horsepower: '' horsepower '' HP'',
             Text (replicate 30 CHR ''-'')])
      else [])"

text \<open>
  A delivery is one invocation of one of the three callbacks by the library's polling
  thread, with the value of the response: \<open>None\<close> is a null response (\<^verbatim>\<open>r.is_null()\<close>
  for RPM, \<^verbatim>\<open>r.value is None\<close> for the two torque commands).
\<close>

datatype delivery =
    new_rpm "rat option"
  | new_torque_percent "rat option"
  | new_reference_torque "rat option"

fun callback :: "delivery \<Rightarrow> telemetry \<Rightarrow> telemetry \<times> line list" where
  "callback (new_rpm r) d =
     (case r of None \<Rightarrow> (d, [])
      | Some v \<Rightarrow> (let d' = d\<lparr>RPM := Some v\<rparr> in (d', process_data d')))"
| "callback (new_torque_percent r) d =
     (case r of None \<Rightarrow> (d, [])
      | Some v \<Rightarrow> (let d' = d\<lparr>Torque_Percent := Some v\<rparr> in (d', process_data d')))"
| "callback (new_reference_torque r) d =
     (case r of None \<Rightarrow> (d, [])
      | Some v \<Rightarrow> (let d' = d\<lparr>Reference_Torque := Some v\<rparr> in (d', process_data d')))"

text \<open>The deliveries of a run, one after the other, on the shared dictionary.\<close>

fun run_callbacks :: "delivery list \<Rightarrow> telemetry \<Rightarrow> telemetry \<times> line list" where
  "run_callbacks [] d = (d, [])"
| "run_callbacks (ev # evs) d =
     (let (d', out) = callback ev d;
          (d'', out') = run_callbacks evs d'
      in (d'', out @ out'))"

section \<open>Self-test\<close>

text \<open>\<^verbatim>\<open>self_test\<close> only prints: its result is the list of the lines it prints.\<close>

definition self_test :: "line list" where
  "self_test =
     (let rpm = 3000; torque_percent = 50; reference_torque = 300;
          actual_torque_nm = fmul (fdiv torque_percent 100) reference_torque;
          horsepower = fdiv (fmul actual_torque_nm rpm) 7127
      in [Text ''Self-test results:'',
          F2 ''RPM: '' rpm '' RPM'',
          F2 ''Torque Percent: '' torque_percent ''%'',
          F2 ''Reference Torque: '' reference_torque '' Nm'',
          F2 ''Actual Torque: '' actual_torque_nm '' Nm'',
          F2 ''Horsepower: '' horsepower '' HP''])"

section \<open>Connection discovery\<close>

text \<open>
  The outside world of \<^verbatim>\<open>connect_obd\<close>: the serial devices enumerated by
  \<^verbatim>\<open>list_ports.comports()\<close>, and for each candidate what opening it gives.
  \<^verbatim>\<open>obd.Async(...)\<close> followed by \<^verbatim>\<open>connection.is_connected()\<close> either yields a connected
  session, or a session that is not connected, or raises an \<^verbatim>\<open>Exception\<close> with some text.
  \<^verbatim>\<open>socket.create_connection\<close> (followed by \<^verbatim>\<open>sock.close()\<close>) either succeeds (\<open>None\<close>)
  or raises an \<^verbatim>\<open>Exception\<close> with some text. A session is identified by its transport.
\<close>

datatype probe = Is_connected | Not_connected | Raises string

datatype connection = Serial string | Socket string int

record env =
  comports :: "string list"
  open_serial :: "string \<Rightarrow> probe"
  create_connection :: "string \<times> int \<Rightarrow> string option"
  open_socket :: "string \<times> int \<Rightarrow> probe"
  supports :: "connection \<Rightarrow> command \<Rightarrow> bool"

definition wifi_addresses :: "(string \<times> int) list" where
  "wifi_addresses =
     [(''192.168.0.10'', 35000),
      (''192.168.0.10'', 23),
      (''192.168.0.11'', 35000),
      (''192.168.0.123'', 35000)]"

text \<open>The first loop of \<^verbatim>\<open>connect_obd\<close>; \<open>None\<close> when the loop ends without a return.\<close>

fun try_serial :: "env \<Rightarrow> string list \<Rightarrow> action list \<times> connection option" where
  "try_serial E [] = ([], None)"
| "try_serial E (port # ports) =
     (let tr = [Print (Text (''Trying serial port '' @ port)), Open_serial port]
      in case open_serial E port of
           Is_connected \<Rightarrow>
             (tr @ [Print (Text (''Connected to OBD-II device on serial port '' @ port))],
              Some (Serial port))
         | Not_connected \<Rightarrow>
             (let (tr', r) = try_serial E ports in (tr @ tr', r))
         | Raises e \<Rightarrow>
             (let (tr', r) = try_serial E ports
              in (tr @ [Print (Text (''Failed to connect on serial port '' @ port @ '': '' @ e))]
                  @ tr', r)))"

text \<open>The second loop of \<^verbatim>\<open>connect_obd\<close>.\<close>

fun try_wifi :: "env \<Rightarrow> (string \<times> int) list \<Rightarrow> action list \<times> connection option" where
  "try_wifi E [] = ([], None)"
| "try_wifi E ((ip, port) # addrs) =
     (let tr = [Print (Text (''Trying WiFi address '' @ ip @ '':'' @ show_int port)),
                Tcp_check ip port];
          failed = (\<lambda>e. Print (Text (''Failed to connect to WiFi OBD-II device at '' @ ip
                      @ '':'' @ show_int port @ '': '' @ e)))
      in case create_connection E (ip, port) of
           Some e \<Rightarrow>
             (let (tr', r) = try_wifi E addrs in (tr @ [failed e] @ tr', r))
         | None \<Rightarrow>
             (case open_socket E (ip, port) of
                Is_connected \<Rightarrow>
                  (tr @ [Open_socket ip port,
                         Print (Text (''Connected to OBD-II device at '' @ ip @ '':''
                           @ show_int port))],
                   Some (Socket ip port))
              | Not_connected \<Rightarrow>
                  (let (tr', r) = try_wifi E addrs in (tr @ [Open_socket ip port] @ tr', r))
              | Raises e \<Rightarrow>
                  (let (tr', r) = try_wifi E addrs
                   in (tr @ [Open_socket ip port, failed e] @ tr', r))))"

text \<open>
  \<^verbatim>\<open>connect_obd\<close> returns the session or leaves by \<^verbatim>\<open>sys.exit(1)\<close>, which raises
  \<^verbatim>\<open>SystemExit(1)\<close>.
\<close>

definition connect_obd :: "env \<Rightarrow> action list \<times> (py_error + connection)" where
  "connect_obd E =
     (let serial_ports = comports E;
          tr0 = [Print_ports serial_ports];
          (tr1, r1) = try_serial E serial_ports
      in case r1 of
           Some connection \<Rightarrow> (tr0 @ tr1, Inr connection)
         | None \<Rightarrow>
             (let (tr2, r2) = try_wifi E wifi_addresses
              in case r2 of
                   Some connection \<Rightarrow> (tr0 @ tr1 @ tr2, Inr connection)
                 | None \<Rightarrow>
                     (tr0 @ tr1 @ tr2 @ [Print (Text ''Could not connect to any OBD-II device.'')],
                      Inl (SystemExit 1))))"

section \<open>The main coroutine and the entry point\<close>

definition required_commands :: "command list" where
  "required_commands = [commands_RPM, ACTUAL_ENGINE_PERCENT_TORQUE, ENGINE_REF_TORQUE]"

text \<open>
  The \<^verbatim>\<open>try\<close> statement at the end of \<^verbatim>\<open>main\<close>. The event awaited is never set, so the
  wait does not return; it ends when an exception \<open>e\<close> is raised at the \<^verbatim>\<open>await\<close>. The
  handler catches \<^verbatim>\<open>KeyboardInterrupt\<close> only, and the \<^verbatim>\<open>finally\<close> clause runs in both cases.
  The result is \<open>None\<close> when \<^verbatim>\<open>main\<close> returns and the exception that leaves it otherwise.
\<close>

definition wait_forever :: "py_error \<Rightarrow> action list \<times> py_error option" where
  "wait_forever e =
     (if e = KeyboardInterrupt then ([Print (Text ''Stopping...''), Stop], None)
      else ([Stop], Some e))"

text \<open>
  \<^verbatim>\<open>main\<close>, given the outside world, the deliveries made by the polling thread while
  \<^verbatim>\<open>main\<close> waits, and the exception that ends the wait. The test
  \<^verbatim>\<open>connection is None\<close> after \<^verbatim>\<open>connect_obd()\<close> is never true, and the statement on
  \<^verbatim>\<open>supports_multiple_commands\<close> sets an attribute that is already true; neither is an
  action.
\<close>

definition main :: "env \<Rightarrow> delivery list \<Rightarrow> py_error \<Rightarrow> action list \<times> py_error option" where
  "main E deliveries e =
     (case connect_obd E of
        (tr, Inl err) \<Rightarrow> (tr, Some err)
      | (tr, Inr connection) \<Rightarrow>
          (let tr1 = tr @ [Add_custom ACTUAL_ENGINE_PERCENT_TORQUE, Add_custom ENGINE_REF_TORQUE];
               unsupported_commands =
                 filter (\<lambda>cmd. \<not> supports E connection cmd) required_commands
           in if unsupported_commands \<noteq> [] then
                (tr1
                 @ [Print (Text ''The following required PIDs are not supported by your vehicle:'')]
                 @ map (\<lambda>cmd. Print (Text (''- '' @ name cmd))) unsupported_commands
                 @ [Print (Text ''Cannot calculate horsepower based on RPM and Torque.'')],
                 Some (SystemExit 1))
              else
                (let tr2 = tr1 @ [Watch commands_RPM, Watch ACTUAL_ENGINE_PERCENT_TORQUE,
                                  Watch ENGINE_REF_TORQUE, Set_poll_interval (1 / 10), Start];
                     (d, out) = run_callbacks deliveries data0;
                     (tr3, r) = wait_forever e
                 in (tr2 @ map Print out @ tr3, r))))"

text \<open>
  How the process ends: with an exit status, or with an exception that nothing catches
  (a traceback and a status that is not zero).
\<close>

datatype ending = Exit nat | Uncaught py_error

text \<open>
  \<^verbatim>\<open>asyncio.run(main())\<close> as the last statement of the script. When \<^verbatim>\<open>main\<close> returns, the
  script ends with status 0, and \<^verbatim>\<open>SystemExit(n)\<close> ends the process with status \<open>n\<close>.
  While \<^verbatim>\<open>main\<close> is suspended at its \<^verbatim>\<open>await\<close>, an operator interrupt does not raise
  \<^verbatim>\<open>KeyboardInterrupt\<close> inside the coroutine: \<^verbatim>\<open>asyncio.run\<close> cancels the main task, so
  that \<^verbatim>\<open>CancelledError\<close> is raised at the \<^verbatim>\<open>await\<close>, and once the task has finished
  \<^verbatim>\<open>asyncio.run\<close> raises \<^verbatim>\<open>KeyboardInterrupt\<close> in the script, where nothing catches it.
\<close>

fun asyncio_run :: "py_error option \<Rightarrow> ending" where
  "asyncio_run None = Exit 0"
| "asyncio_run (Some (SystemExit n)) = Exit n"
| "asyncio_run (Some CancelledError) = Uncaught KeyboardInterrupt"
| "asyncio_run (Some e) = Uncaught e"

definition dunder_main ::
  "string list \<Rightarrow> env \<Rightarrow> delivery list \<Rightarrow> py_error \<Rightarrow> action list \<times> ending" where
  "dunder_main argv E deliveries e =
     (if length argv > 1 \<and> argv ! 1 = ''--self-test'' then (map Print self_test, Exit 0)
      else (let (tr, r) = main E deliveries e in (tr, asyncio_run r)))"

section \<open>The report and the most recent values, as the specification words them\<close>

text \<open>
  A horsepower report for given values of RPM, percent torque and reference torque:
  three lines and a separator, with
  \<open>ActualTorqueNm = (TorquePercent / 100.0) * ReferenceTorqueNm\<close> and
  \<open>HorsepowerHP = (ActualTorqueNm * RPM) / 7127.0\<close> in float arithmetic.
\<close>

definition report :: "rat \<Rightarrow> rat \<Rightarrow> rat \<Rightarrow> line list" where
  "report rpm tp ref =
     [F2 ''RPM: '' rpm '' RPM'',
      F2 ''Torque: '' (fmul (fdiv tp 100) ref) '' Nm'',
      F2 ''Horsepower: '' (fdiv (fmul (fmul (fdiv tp 100) ref) rpm) 7127) '' HP'',
      Text (replicate 30 CHR ''-'')]"

text \<open>The value a delivery carries for each field; \<open>None\<close> for the other fields.\<close>

fun rpm_value :: "delivery \<Rightarrow> rat option" where
  "rpm_value (new_rpm r) = r"
| "rpm_value _ = None"

fun torque_percent_value :: "delivery \<Rightarrow> rat option" where
  "torque_percent_value (new_torque_percent r) = r"
| "torque_percent_value _ = None"

fun reference_torque_value :: "delivery \<Rightarrow> rat option" where
  "reference_torque_value (new_reference_torque r) = r"
| "reference_torque_value _ = None"

fun is_null :: "delivery \<Rightarrow> bool" where
  "is_null (new_rpm r) = (r = None)"
| "is_null (new_torque_percent r) = (r = None)"
| "is_null (new_reference_torque r) = (r = None)"

text \<open>The most recent value in a history of optional values, oldest first.\<close>

fun most_recent :: "'a option list \<Rightarrow> 'a option" where
  "most_recent [] = None"
| "most_recent (x # xs) = (case most_recent xs of Some w \<Rightarrow> Some w | None \<Rightarrow> x)"

definition latest_rpm :: "delivery list \<Rightarrow> rat option" where
  "latest_rpm evs = most_recent (map rpm_value evs)"

definition latest_torque_percent :: "delivery list \<Rightarrow> rat option" where
  "latest_torque_percent evs = most_recent (map torque_percent_value evs)"

definition latest_reference_torque :: "delivery list \<Rightarrow> rat option" where
  "latest_reference_torque evs = most_recent (map reference_torque_value evs)"

section \<open>Discovery, as the specification words it\<close>

text \<open>
  The candidates in the order of the specification: every enumerated serial device,
  then the fixed list of network endpoints.
\<close>

definition candidates :: "env \<Rightarrow> connection list" where
  "candidates E = map Serial (comports E) @ map (\<lambda>(ip, port). Socket ip port) wifi_addresses"

text \<open>A candidate is live when probing it yields a session that reports connected.\<close>

fun live :: "env \<Rightarrow> connection \<Rightarrow> bool" where
  "live E (Serial port) = (open_serial E port = Is_connected)"
| "live E (Socket ip port) =
     (create_connection E (ip, port) = None \<and> open_socket E (ip, port) = Is_connected)"

text \<open>
  Probing a candidate. A serial device: open a session on it. A network endpoint: check
  that it is reachable over TCP and, when it is, open a session over the socket.
\<close>

fun probe_calls :: "env \<Rightarrow> connection \<Rightarrow> action list" where
  "probe_calls E (Serial port) = [Open_serial port]"
| "probe_calls E (Socket ip port) =
     (if create_connection E (ip, port) = None then [Tcp_check ip port, Open_socket ip port]
      else [Tcp_check ip port])"

text \<open>
  The calls into the OBD library and the socket library among a list of actions, in
  order: every action but the printed lines.
\<close>

fun library_calls :: "action list \<Rightarrow> action list" where
  "library_calls [] = []"
| "library_calls (Print l # tr) = library_calls tr"
| "library_calls (Print_ports ports # tr) = library_calls tr"
| "library_calls (a # tr) = a # library_calls tr"

text \<open>The actions of the polling phase: subscribing, setting the interval, starting.\<close>

fun polling_action :: "action \<Rightarrow> bool" where
  "polling_action (Watch _) = True"
| "polling_action (Set_poll_interval _) = True"
| "polling_action Start = True"
| "polling_action _ = False"

text \<open>
  The candidates up to and including the first live one, or all of them when none is
  live.
\<close>

definition probes_until_live :: "env \<Rightarrow> connection list \<Rightarrow> connection list" where
  "probes_until_live E cs =
     (case find (live E) cs of
        Some c \<Rightarrow> takeWhile (\<lambda>c. \<not> live E c) cs @ [c]
      | None \<Rightarrow> cs)"

section \<open>Example environments\<close>

text \<open>
  \<open>E1\<close>: two serial devices that both fail and the second network endpoint live.
  \<open>E2\<close>: no candidate is live.
  \<open>E3\<close>: a serial device with a live session that does not support the reference-torque
  command. \<open>E4\<close>: a serial device with a live session that supports every command.
\<close>

definition E1 :: env where
  "E1 = \<lparr>comports = [''/dev/ttyUSB0'', ''/dev/rfcomm0''],
         open_serial = (\<lambda>port. if port = ''/dev/ttyUSB0'' then Raises ''timeout'' else Not_connected),
         create_connection = (\<lambda>a. if a = (''192.168.0.10'', 35000) then Some ''timed out'' else None),
         open_socket = (\<lambda>a. if a = (''192.168.0.10'', 23) then Is_connected else Not_connected),
         supports = (\<lambda>c cmd. True)\<rparr>"

definition E2 :: env where
  "E2 = \<lparr>comports = [''COM3''],
         open_serial = (\<lambda>port. Not_connected),
         create_connection = (\<lambda>a. Some ''unreachable''),
         open_socket = (\<lambda>a. Not_connected),
         supports = (\<lambda>c cmd. True)\<rparr>"

definition E3 :: env where
  "E3 = \<lparr>comports = [''COM3''],
         open_serial = (\<lambda>port. Is_connected),
         create_connection = (\<lambda>a. None),
         open_socket = (\<lambda>a. Not_connected),
         supports = (\<lambda>c cmd. cmd \<noteq> ENGINE_REF_TORQUE)\<rparr>"

definition E4 :: env where
  "E4 = \<lparr>comports = [''COM3''],
         open_serial = (\<lambda>port. Is_connected),
         create_connection = (\<lambda>a. None),
         open_socket = (\<lambda>a. Not_connected),
         supports = (\<lambda>c cmd. True)\<rparr>"

section \<open>Properties of the decoders\<close>

lemma bytes_to_int_range: "0 \<le> bytes_to_int b \<and> bytes_to_int b \<le> 255"
proof -
  have "uint b < 2 ^ LENGTH(8)" by (rule uint_bounded)
  then show ?thesis by (simp add: bytes_to_int_def)
qed

text \<open>
  C4. When the message list is not empty and its first message has at least one data
  byte, the percent-torque decoder returns \<open>A - 125\<close>, where \<open>A\<close> is the first data byte
  read as an unsigned integer, and the result lies between \<open>-125\<close> and \<open>130\<close>. The value
  \<open>130\<close> is reached at the byte \<open>0xFF\<close> (see the witness): nothing clamps it to \<open>125\<close>.
\<close>

theorem decode_percent_torque_value:
  assumes "1 \<le> length (data msg)"
  shows "decode_percent_torque (msg # ms) = Inr (Some (uint (data msg ! 0) - 125))
    \<and> - 125 \<le> uint (data msg ! 0) - 125
    \<and> uint (data msg ! 0) - 125 \<le> 130"
proof -
  from assms have "index (data msg) 0 = Inr (data msg ! 0)"
    by (cases "data msg") (simp_all add: index_def)
  moreover have "0 \<le> uint (data msg ! 0) \<and> uint (data msg ! 0) \<le> 255"
    using bytes_to_int_range [of "data msg ! 0"] by (simp add: bytes_to_int_def)
  ultimately show ?thesis
    by (simp add: bytes_to_int_def)
qed

theorem decode_percent_torque_value_witness:
  "1 \<le> length (data \<lparr>data = [0xFF]\<rparr>)
   \<and> decode_percent_torque [\<lparr>data = [0xFF]\<rparr>] = Inr (Some 130)"
  using decode_percent_torque_value [of "\<lparr>data = [0xFF]\<rparr>" "[]"] by simp

text \<open>
  C5. When the message list is not empty and its first message has at least two data
  bytes, the reference-torque decoder returns \<open>A * 256 + B\<close>, where \<open>A\<close> and \<open>B\<close> are the
  first two data bytes read as unsigned integers, and the result lies between \<open>0\<close> and
  \<open>65535\<close>.
\<close>

theorem decode_reference_torque_value:
  assumes "2 \<le> length (data msg)"
  shows "decode_reference_torque (msg # ms)
        = Inr (Some (uint (data msg ! 0) * 256 + uint (data msg ! 1)))
    \<and> 0 \<le> uint (data msg ! 0) * 256 + uint (data msg ! 1)
    \<and> uint (data msg ! 0) * 256 + uint (data msg ! 1) \<le> 65535"
proof -
  from assms have i0: "index (data msg) 0 = Inr (data msg ! 0)"
    and i1: "index (data msg) 1 = Inr (data msg ! 1)"
    by (cases "data msg", simp_all add: index_def)+
  have r0: "0 \<le> uint (data msg ! 0) \<and> uint (data msg ! 0) \<le> 255"
    using bytes_to_int_range [of "data msg ! 0"] by (simp add: bytes_to_int_def)
  have r1: "0 \<le> uint (data msg ! 1) \<and> uint (data msg ! 1) \<le> 255"
    using bytes_to_int_range [of "data msg ! 1"] by (simp add: bytes_to_int_def)
  have "decode_reference_torque (msg # ms)
        = Inr (Some (uint (data msg ! 0) * 256 + uint (data msg ! 1)))"
    using i0 i1 by (simp add: bytes_to_int_def push_bit_eq_mult)
  moreover have "0 \<le> uint (data msg ! 0) * 256 + uint (data msg ! 1)"
    using r0 r1 by simp
  moreover have "uint (data msg ! 0) * 256 + uint (data msg ! 1) \<le> 65535"
    using r0 r1 by simp
  ultimately show ?thesis by simp
qed

theorem decode_reference_torque_value_witness:
  "2 \<le> length (data \<lparr>data = [0x01, 0x2C]\<rparr>)
   \<and> decode_reference_torque [\<lparr>data = [0x01, 0x2C]\<rparr>] = Inr (Some 300)"
  using decode_reference_torque_value [of "\<lparr>data = [0x01, 0x2C]\<rparr>" "[]"] by simp

text \<open>
  C6. On the empty message list both decoders return \<^verbatim>\<open>None\<close> ("no data") and raise
  nothing. Both are functions of the message list alone.
\<close>

theorem decoders_empty_no_data:
  "decode_percent_torque [] = Inr None \<and> decode_reference_torque [] = Inr None"
  by simp

text \<open>
  C10. The guard of the reference-torque decoder covers the empty message list only: on
  every message list whose first message has exactly one data byte the decoder raises
  \<^verbatim>\<open>IndexError\<close> (at \<^verbatim>\<open>msg.data[1]\<close>) instead of returning "no data".
\<close>

theorem decode_reference_torque_short_payload:
  "decode_reference_torque (\<lparr>data = [b]\<rparr> # ms) = Inl IndexError
   \<and> decode_reference_torque (\<lparr>data = [b]\<rparr> # ms) \<noteq> Inr None"
  by (simp add: index_def)

section \<open>Properties of the float model\<close>

text \<open>
  Rounding to the nearest integer is off by at most one half, the binary exponent
  brackets its argument, and so \<open>fl\<close> has a relative error of at most \<open>2 ^ -53\<close>.
\<close>

lemma round_half_even_error: "\<bar>of_int (round_half_even q) - q\<bar> \<le> 1 / 2"
proof -
  have "of_int \<lfloor>q\<rfloor> \<le> q" and "q < of_int \<lfloor>q\<rfloor> + 1"
    by linarith+
  then show ?thesis
    unfolding round_half_even_def Let_def by (auto simp: abs_le_iff)
qed

lemma of_int_bitlen_bounds:
  assumes "0 < p"
  shows "power_int 2 (bitlen p - 1) \<le> (of_int p :: rat)" and "(of_int p :: rat) < power_int 2 (bitlen p)"
proof -
  from assms have b1: "1 \<le> bitlen p"
    by (auto simp: bitlen_alt_def)
  have lo: "2 ^ nat (bitlen p - 1) \<le> p" and hi: "p < 2 ^ nat (bitlen p)"
    using bitlen_bounds [OF assms] by simp_all
  have "(of_int (2 ^ nat (bitlen p - 1)) :: rat) \<le> of_int p"
    using lo by (simp only: of_int_le_iff)
  moreover have "power_int (2::rat) (bitlen p - 1) = 2 ^ nat (bitlen p - 1)"
    using b1 by (simp add: power_int_def)
  ultimately show "power_int 2 (bitlen p - 1) \<le> (of_int p :: rat)"
    by simp
  have "(of_int p :: rat) < of_int (2 ^ nat (bitlen p))"
    using hi by (simp only: of_int_less_iff)
  moreover have "power_int (2::rat) (bitlen p) = 2 ^ nat (bitlen p)"
    using b1 by (simp add: power_int_def)
  ultimately show "(of_int p :: rat) < power_int 2 (bitlen p)"
    by simp
qed

lemma binary_exponent_bounds:
  assumes "0 < x"
  shows "power_int 2 (binary_exponent x) \<le> x" and "x < power_int 2 (binary_exponent x + 1)"
proof -
  obtain p q where pq: "quotient_of x = (p, q)"
    by (cases "quotient_of x")
  then have q: "0 < q" and x: "x = of_int p / of_int q"
    by (simp_all add: quotient_of_denom_pos quotient_of_div)
  from assms x q have p: "0 < p"
    by (simp add: zero_less_divide_iff)
  let ?e0 = "bitlen p - bitlen q"
  have up: "x < power_int 2 (?e0 + 1)"
  proof -
    have "x < power_int 2 (bitlen p) / power_int 2 (bitlen q - 1)"
      unfolding x using of_int_bitlen_bounds [OF p] of_int_bitlen_bounds [OF q] q p
      by (intro frac_less) (auto intro: less_imp_le)
    also have "\<dots> = power_int 2 (?e0 + 1)"
      by (simp add: power_int_diff [symmetric] algebra_simps)
    finally show ?thesis .
  qed
  have lo: "power_int 2 (?e0 - 1) \<le> x"
  proof -
    have "power_int 2 (bitlen p - 1) / power_int 2 (bitlen q) \<le> x"
      unfolding x using of_int_bitlen_bounds [OF p] of_int_bitlen_bounds [OF q] q p
      by (intro frac_le) (auto intro: less_imp_le)
    moreover have "power_int (2::rat) (bitlen p - 1) / power_int 2 (bitlen q) = power_int 2 (?e0 - 1)"
      by (simp add: power_int_diff [symmetric] algebra_simps)
    ultimately show ?thesis by simp
  qed
  show "power_int 2 (binary_exponent x) \<le> x"
    using lo by (simp add: binary_exponent_def pq Let_def)
  show "x < power_int 2 (binary_exponent x + 1)"
    using up by (auto simp: binary_exponent_def pq Let_def not_le)
qed


lemma fl_error:
  "\<bar>fl x - x\<bar> \<le> \<bar>x\<bar> * power_int 2 (- 53)"
proof (cases "x = 0")
  case True
  then show ?thesis by (simp add: fl_def)
next
  case False
  define e where "e = binary_exponent \<bar>x\<bar>"
  define u :: rat where "u = power_int 2 (e - 52)"
  have u: "0 < u"
    by (simp add: u_def)
  from False have "0 < \<bar>x\<bar>" by simp
  then have lo: "power_int 2 e \<le> \<bar>x\<bar>"
    unfolding e_def by (rule binary_exponent_bounds)
  have "fl x - x = (of_int (round_half_even (x / u)) - x / u) * u"
    using False u by (simp add: fl_def Let_def e_def u_def algebra_simps)
  then have "\<bar>fl x - x\<bar> = \<bar>of_int (round_half_even (x / u)) - x / u\<bar> * u"
    using u by (simp add: abs_mult)
  also have "\<dots> \<le> 1 / 2 * u"
    using round_half_even_error [of "x / u"] u by (intro mult_right_mono) simp_all
  also have "1 / 2 * u = power_int 2 e * power_int 2 (- 53)"
    by (simp add: u_def power_int_add [symmetric] power_int_diff)
  also have "\<dots> \<le> \<bar>x\<bar> * power_int 2 (- 53)"
    using lo by (intro mult_right_mono) simp_all
  finally show ?thesis .
qed


lemma approximates_fl:
  assumes "approximates r a b" and "0 \<le> r"
  shows "approximates (r + unit_roundoff + r * unit_roundoff) (fl a) b"
proof -
  have e: "0 \<le> unit_roundoff"
    by (simp add: unit_roundoff_def)
  have fe: "\<bar>fl a - a\<bar> \<le> \<bar>a\<bar> * unit_roundoff"
    unfolding unit_roundoff_def by (rule fl_error)
  from assms(1) have ab: "\<bar>a - b\<bar> \<le> \<bar>b\<bar> * r"
    by (simp add: approximates_def)
  have "\<bar>a\<bar> \<le> \<bar>b\<bar> + \<bar>a - b\<bar>"
    by linarith
  with ab have a: "\<bar>a\<bar> \<le> \<bar>b\<bar> + \<bar>b\<bar> * r"
    by linarith
  have "\<bar>fl a - b\<bar> \<le> \<bar>fl a - a\<bar> + \<bar>a - b\<bar>"
    by linarith
  also have "\<dots> \<le> \<bar>a\<bar> * unit_roundoff + \<bar>b\<bar> * r"
    using fe ab by linarith
  also have "\<dots> \<le> (\<bar>b\<bar> + \<bar>b\<bar> * r) * unit_roundoff + \<bar>b\<bar> * r"
    using a e by (simp add: mult_right_mono)
  also have "\<dots> = \<bar>b\<bar> * (r + unit_roundoff + r * unit_roundoff)"
    by (simp add: algebra_simps)
  finally show ?thesis
    by (simp add: approximates_def)
qed

lemma approximates_refl: "approximates 0 a a"
  by (simp add: approximates_def)

lemma approximates_mult: "approximates r a b \<Longrightarrow> approximates r (a * c) (b * c)"
proof -
  assume "approximates r a b"
  then have "\<bar>a - b\<bar> * \<bar>c\<bar> \<le> \<bar>b\<bar> * r * \<bar>c\<bar>"
    by (simp add: approximates_def mult_right_mono)
  moreover have "\<bar>a * c - b * c\<bar> = \<bar>a - b\<bar> * \<bar>c\<bar>"
    by (simp add: abs_mult [symmetric] algebra_simps)
  ultimately show ?thesis
    by (simp add: approximates_def abs_mult algebra_simps)
qed

lemma approximates_divide: "approximates r a b \<Longrightarrow> approximates r (a / c) (b / c)"
  using approximates_mult [of r a b "1 / c"] by simp

lemma approximates_mono: "approximates r a b \<Longrightarrow> r \<le> r' \<Longrightarrow> approximates r' a b"
proof -
  assume "approximates r a b" and "r \<le> r'"
  then have "\<bar>a - b\<bar> \<le> \<bar>b\<bar> * r" and "\<bar>b\<bar> * r \<le> \<bar>b\<bar> * r'"
    by (simp_all add: approximates_def mult_left_mono)
  then show ?thesis
    by (simp add: approximates_def)
qed

lemma approximates_fdiv:
  assumes "approximates r a b" and "0 \<le> r"
  shows "approximates (r + unit_roundoff + r * unit_roundoff) (fdiv a c) (b / c)"
  unfolding fdiv_def using approximates_divide [OF assms(1)] assms(2) by (rule approximates_fl)

lemma approximates_fmul:
  assumes "approximates r a b" and "0 \<le> r"
  shows "approximates (r + unit_roundoff + r * unit_roundoff) (fmul a c) (b * c)"
  unfolding fmul_def using approximates_mult [OF assms(1)] assms(2) by (rule approximates_fl)

lemma torque_accuracy:
  "approximates (power_int 2 (- 51)) (fmul (fdiv tp 100) ref) (tp / 100 * ref)"
proof -
  let ?e = unit_roundoff
  let ?r1 = "0 + ?e + 0 * ?e"
  let ?r2 = "?r1 + ?e + ?r1 * ?e"
  have e: "0 \<le> ?e"
    by (simp add: unit_roundoff_def)
  have "approximates ?r1 (fdiv tp 100) (tp / 100)"
    using approximates_refl by (rule approximates_fdiv) simp
  then have "approximates ?r2 (fmul (fdiv tp 100) ref) (tp / 100 * ref)"
    by (rule approximates_fmul) (simp add: e)
  moreover have "?r2 \<le> power_int 2 (- 51)"
    by (simp add: unit_roundoff_def power_int_minus)
  ultimately show ?thesis
    by (rule approximates_mono)
qed

lemma horsepower_accuracy:
  "approximates (power_int 2 (- 50))
     (fdiv (fmul (fmul (fdiv tp 100) ref) rpm) 7127) (tp / 100 * ref * rpm / 7127)"
proof -
  let ?e = unit_roundoff
  let ?r1 = "0 + ?e + 0 * ?e"
  let ?r2 = "?r1 + ?e + ?r1 * ?e"
  let ?r3 = "?r2 + ?e + ?r2 * ?e"
  let ?r4 = "?r3 + ?e + ?r3 * ?e"
  have e: "0 \<le> ?e"
    by (simp add: unit_roundoff_def)
  have "approximates ?r1 (fdiv tp 100) (tp / 100)"
    using approximates_refl by (rule approximates_fdiv) simp
  then have "approximates ?r2 (fmul (fdiv tp 100) ref) (tp / 100 * ref)"
    by (rule approximates_fmul) (simp add: e)
  then have "approximates ?r3 (fmul (fmul (fdiv tp 100) ref) rpm) (tp / 100 * ref * rpm)"
    by (rule approximates_fmul) (simp add: e)
  then have "approximates ?r4 (fdiv (fmul (fmul (fdiv tp 100) ref) rpm) 7127)
      (tp / 100 * ref * rpm / 7127)"
    by (rule approximates_fdiv) (simp add: e)
  moreover have "?r4 \<le> power_int 2 (- 50)"
    by (simp add: unit_roundoff_def power_int_minus)
  ultimately show ?thesis
    by (rule approximates_mono)
qed

section \<open>Properties of the horsepower calculation\<close>

text \<open>
  C1. For every complete dictionary (RPM, percent torque and reference torque all set),
  \<^verbatim>\<open>process_data\<close> computes the actual torque as \<open>(TorquePercent / 100.0) * ReferenceTorque\<close>
  and the horsepower as \<open>(ActualTorque * RPM) / 7127\<close>, in float arithmetic, whatever
  the values are: no value is clamped or treated apart. The two floats agree with the
  exact values of these formulas up to a relative error of \<open>2 ^ -51\<close> and \<open>2 ^ -50\<close>.
  The witness is a negative percent torque (engine braking), which gives a negative
  torque and horsepower.
\<close>

theorem process_data_formula:
  assumes "RPM d = Some rpm"
    and "Torque_Percent d = Some tp"
    and "Reference_Torque d = Some ref"
  shows "process_data d =
    [F2 ''RPM: '' rpm '' RPM'',
     F2 ''Torque: '' (fmul (fdiv tp 100) ref) '' Nm'',
     F2 ''Horsepower: '' (fdiv (fmul (fmul (fdiv tp 100) ref) rpm) 7127) '' HP'',
     Text (replicate 30 CHR ''-'')]
    \<and> approximates (power_int 2 (- 51)) (fmul (fdiv tp 100) ref) (tp / 100 * ref)
    \<and> approximates (power_int 2 (- 50))
        (fdiv (fmul (fmul (fdiv tp 100) ref) rpm) 7127) (tp / 100 * ref * rpm / 7127)"
  using assms torque_accuracy [of tp ref] horsepower_accuracy [of tp ref rpm]
  by (simp add: process_data_def Let_def)

theorem process_data_formula_witness:
  "RPM \<lparr>RPM = Some 3000, Torque_Percent = Some (- 50), Reference_Torque = Some 300\<rparr> = Some 3000
   \<and> Torque_Percent \<lparr>RPM = Some 3000, Torque_Percent = Some (- 50), Reference_Torque = Some 300\<rparr>
       = Some (- 50)
   \<and> Reference_Torque \<lparr>RPM = Some 3000, Torque_Percent = Some (- 50), Reference_Torque = Some 300\<rparr>
       = Some 300
   \<and> process_data \<lparr>RPM = Some 3000, Torque_Percent = Some (- 50), Reference_Torque = Some 300\<rparr> =
       [F2 ''RPM: '' 3000 '' RPM'',
        F2 ''Torque: '' (- 150) '' Nm'',
        F2 ''Horsepower: '' (- (8886189106201431 / 140737488355328)) '' HP'',
        Text ''------------------------------'']"
proof -
  have f1: "fmul (fdiv (- 50) 100) 300 = - 150"
    by code_simp
  have f2: "fdiv (fmul (- 150) 3000) 7127 = - (8886189106201431 / 140737488355328)"
    by code_simp
  have r: "replicate 30 CHR ''-'' = ''------------------------------''"
    by code_simp
  show ?thesis
    using process_data_formula
      [of "\<lparr>RPM = Some 3000, Torque_Percent = Some (- 50), Reference_Torque = Some 300\<rparr>"
          3000 "- 50" 300]
    by (simp add: f1 f2 r)
qed


section \<open>Properties of the self-test\<close>

lemma self_test_rendered:
  "map render self_test =
     [''Self-test results:'',
      ''RPM: 3000.00 RPM'',
      ''Torque Percent: 50.00%'',
      ''Reference Torque: 300.00 Nm'',
      ''Actual Torque: 150.00 Nm'',
      ''Horsepower: 63.14 HP'']"
  by code_simp

text \<open>
  C2 (as amended). Run with \<^verbatim>\<open>--self-test\<close> as its first argument, the program only
  prints: it performs the fixed calculation on RPM 3000, percent torque 50 and reference
  torque 300, touches no transport and ends with status 0. The lines it prints, with
  two decimals, give an actual torque of 150.00 Nm and a horsepower of 63.14 HP.
\<close>

theorem self_test_run:
  "dunder_main (prog # ''--self-test'' # args) E deliveries e = (map Print self_test, Exit 0)
   \<and> map render self_test =
     [''Self-test results:'',
      ''RPM: 3000.00 RPM'',
      ''Torque Percent: 50.00%'',
      ''Reference Torque: 300.00 Nm'',
      ''Actual Torque: 150.00 Nm'',
      ''Horsepower: 63.14 HP'']"
  by (simp add: dunder_main_def self_test_rendered)

text \<open>
  C2 as stated gives the horsepower as 63.17 HP; the self-test prints no such line
  (\<open>150 * 3000 / 7127 = 63.14...\<close>).
\<close>

theorem self_test_horsepower_counterexample:
  "''Horsepower: 63.17 HP'' \<notin> set (map render self_test)"
  by (simp add: self_test_rendered)

section \<open>Properties of the callbacks\<close>

lemma callback_RPM:
  "RPM (fst (callback ev d)) = (case rpm_value ev of Some v \<Rightarrow> Some v | None \<Rightarrow> RPM d)"
  by (cases ev) (simp_all add: Let_def split: option.splits)

lemma callback_Torque_Percent:
  "Torque_Percent (fst (callback ev d)) =
     (case torque_percent_value ev of Some v \<Rightarrow> Some v | None \<Rightarrow> Torque_Percent d)"
  by (cases ev) (simp_all add: Let_def split: option.splits)

lemma callback_Reference_Torque:
  "Reference_Torque (fst (callback ev d)) =
     (case reference_torque_value ev of Some v \<Rightarrow> Some v | None \<Rightarrow> Reference_Torque d)"
  by (cases ev) (simp_all add: Let_def split: option.splits)

lemma run_callbacks_RPM:
  "RPM (fst (run_callbacks evs d)) = (case latest_rpm evs of Some w \<Rightarrow> Some w | None \<Rightarrow> RPM d)"
proof (induction evs arbitrary: d)
  case Nil
  then show ?case by (simp add: latest_rpm_def)
next
  case (Cons ev evs)
  have "fst (run_callbacks (ev # evs) d) = fst (run_callbacks evs (fst (callback ev d)))"
    by (simp add: split_beta)
  then show ?case
    using Cons [of "fst (callback ev d)"]
    by (simp add: latest_rpm_def callback_RPM split: option.splits)
qed

lemma run_callbacks_snoc:
  "run_callbacks (evs @ [ev]) d =
     (fst (callback ev (fst (run_callbacks evs d))),
      snd (run_callbacks evs d) @ snd (callback ev (fst (run_callbacks evs d))))"
  by (induction evs arbitrary: d) (simp_all add: split_beta)

lemma process_data_report:
  "process_data d =
     (case (RPM d, Torque_Percent d, Reference_Torque d) of
        (Some rpm, Some tp, Some ref) \<Rightarrow> report rpm tp ref
      | _ \<Rightarrow> [])"
  by (simp add: process_data_def report_def Let_def split: option.splits)

lemma callback_output:
  "snd (callback ev d) =
     (if is_null ev then []
      else process_data (fst (callback ev d)))"
  by (cases ev) (auto simp: Let_def split: option.splits)


lemma run_callbacks_Torque_Percent:
  "Torque_Percent (fst (run_callbacks evs d)) =
     (case latest_torque_percent evs of Some w \<Rightarrow> Some w | None \<Rightarrow> Torque_Percent d)"
proof (induction evs arbitrary: d)
  case Nil
  then show ?case by (simp add: latest_torque_percent_def)
next
  case (Cons ev evs)
  have "fst (run_callbacks (ev # evs) d) = fst (run_callbacks evs (fst (callback ev d)))"
    by (simp add: split_beta)
  then show ?case
    using Cons [of "fst (callback ev d)"]
    by (simp add: latest_torque_percent_def callback_Torque_Percent split: option.splits)
qed

lemma run_callbacks_Reference_Torque:
  "Reference_Torque (fst (run_callbacks evs d)) =
     (case latest_reference_torque evs of Some w \<Rightarrow> Some w | None \<Rightarrow> Reference_Torque d)"
proof (induction evs arbitrary: d)
  case Nil
  then show ?case by (simp add: latest_reference_torque_def)
next
  case (Cons ev evs)
  have "fst (run_callbacks (ev # evs) d) = fst (run_callbacks evs (fst (callback ev d)))"
    by (simp add: split_beta)
  then show ?case
    using Cons [of "fst (callback ev d)"]
    by (simp add: latest_reference_torque_def callback_Reference_Torque split: option.splits)
qed

lemma run_callbacks_data0:
  "RPM (fst (run_callbacks evs data0)) = latest_rpm evs"
  "Torque_Percent (fst (run_callbacks evs data0)) = latest_torque_percent evs"
  "Reference_Torque (fst (run_callbacks evs data0)) = latest_reference_torque evs"
  by (simp_all add: run_callbacks_RPM run_callbacks_Torque_Percent
      run_callbacks_Reference_Torque data0_def split: option.splits)

lemma most_recent_snoc:
  "most_recent (xs @ [x]) = (case x of Some v \<Rightarrow> Some v | None \<Rightarrow> most_recent xs)"
  by (induction xs) (auto split: option.splits)

lemma delivery_output:
  "snd (run_callbacks (evs @ [ev]) data0) =
     snd (run_callbacks evs data0) @
       (if is_null ev then []
        else case (latest_rpm (evs @ [ev]), latest_torque_percent (evs @ [ev]),
                   latest_reference_torque (evs @ [ev])) of
               (Some rpm, Some tp, Some ref) \<Rightarrow> report rpm tp ref
             | _ \<Rightarrow> [])"
proof -
  have st: "fst (callback ev (fst (run_callbacks evs data0))) = fst (run_callbacks (evs @ [ev]) data0)"
    by (simp add: run_callbacks_snoc)
  have "snd (run_callbacks (evs @ [ev]) data0) =
      snd (run_callbacks evs data0) @ snd (callback ev (fst (run_callbacks evs data0)))"
    by (simp add: run_callbacks_snoc)
  also have "snd (callback ev (fst (run_callbacks evs data0))) =
      (if is_null ev then [] else process_data (fst (run_callbacks (evs @ [ev]) data0)))"
    by (simp only: callback_output st)
  also have "process_data (fst (run_callbacks (evs @ [ev]) data0)) =
      (case (latest_rpm (evs @ [ev]), latest_torque_percent (evs @ [ev]),
                   latest_reference_torque (evs @ [ev])) of
               (Some rpm, Some tp, Some ref) \<Rightarrow> report rpm tp ref
             | _ \<Rightarrow> [])"
    by (simp only: process_data_report run_callbacks_data0)
  finally show ?thesis .
qed

lemma latest_snoc_None:
  "latest_rpm (evs @ [ev]) = None \<Longrightarrow> latest_rpm evs = None"
  "latest_torque_percent (evs @ [ev]) = None \<Longrightarrow> latest_torque_percent evs = None"
  "latest_reference_torque (evs @ [ev]) = None \<Longrightarrow> latest_reference_torque evs = None"
  by (auto simp: latest_rpm_def latest_torque_percent_def latest_reference_torque_def
      most_recent_snoc split: option.splits)

lemma no_report_before_complete:
  "latest_rpm evs = None \<or> latest_torque_percent evs = None \<or> latest_reference_torque evs = None
   \<Longrightarrow> snd (run_callbacks evs data0) = []"
proof (induction evs rule: rev_induct)
  case Nil
  then show ?case by simp
next
  case (snoc ev evs)
  from snoc.prems have "latest_rpm evs = None \<or> latest_torque_percent evs = None
      \<or> latest_reference_torque evs = None"
    by (auto dest: latest_snoc_None)
  then have "snd (run_callbacks evs data0) = []"
    by (rule snoc.IH)
  moreover from snoc.prems have
    "(case (latest_rpm (evs @ [ev]), latest_torque_percent (evs @ [ev]),
            latest_reference_torque (evs @ [ev])) of
        (Some rpm, Some tp, Some ref) \<Rightarrow> report rpm tp ref
      | _ \<Rightarrow> []) = []"
    by (auto split: option.splits)
  ultimately show ?case
    by (simp add: delivery_output)
qed

text \<open>
  C3. Starting from the empty dictionary, after any deliveries \<open>evs\<close>: delivering
  \<open>ev\<close> prints nothing when \<open>ev\<close> is a null response, and otherwise prints exactly one
  report, computed from the most recent value of each of the three fields (the value
  just delivered and the last values seen for the other two), provided each of the
  three has been set at least once; and as long as one of the three fields has never
  been set, nothing has been printed at all.
\<close>

theorem aggregator_reports:
  "snd (run_callbacks (evs @ [ev]) data0) =
     snd (run_callbacks evs data0) @
       (if is_null ev then []
        else case (latest_rpm (evs @ [ev]), latest_torque_percent (evs @ [ev]),
                   latest_reference_torque (evs @ [ev])) of
               (Some rpm, Some tp, Some ref) \<Rightarrow> report rpm tp ref
             | _ \<Rightarrow> [])
   \<and> (latest_rpm evs = None \<or> latest_torque_percent evs = None
        \<or> latest_reference_torque evs = None
      \<longrightarrow> snd (run_callbacks evs data0) = [])"
  using delivery_output no_report_before_complete by blast


theorem aggregator_reports_witness:
  "(latest_rpm [new_rpm (Some 3000), new_torque_percent (Some 50)] = None
     \<or> latest_torque_percent [new_rpm (Some 3000), new_torque_percent (Some 50)] = None
     \<or> latest_reference_torque [new_rpm (Some 3000), new_torque_percent (Some 50)] = None)
   \<and> snd (run_callbacks [new_rpm (Some 3000), new_torque_percent (Some 50)] data0) = []
   \<and> snd (run_callbacks
         [new_rpm (Some 3000), new_torque_percent (Some 50), new_reference_torque (Some 300)]
         data0) = report 3000 50 300
   \<and> snd (run_callbacks
         [new_rpm (Some 3000), new_torque_percent (Some 50), new_reference_torque (Some 300),
          new_rpm (Some 3500)]
         data0) = report 3000 50 300 @ report 3500 50 300"
proof -
  have n: "latest_reference_torque [new_rpm (Some 3000), new_torque_percent (Some 50)] = None"
    by (simp add: latest_reference_torque_def)
  have a: "snd (run_callbacks [new_rpm (Some 3000), new_torque_percent (Some 50)] data0) = []
    \<and> snd (run_callbacks
         [new_rpm (Some 3000), new_torque_percent (Some 50), new_reference_torque (Some 300)]
         data0) = report 3000 50 300"
    using aggregator_reports
      [of "[new_rpm (Some 3000), new_torque_percent (Some 50)]" "new_reference_torque (Some 300)"]
    by (simp add: n latest_rpm_def latest_torque_percent_def latest_reference_torque_def)
  have b: "snd (run_callbacks
         [new_rpm (Some 3000), new_torque_percent (Some 50), new_reference_torque (Some 300),
          new_rpm (Some 3500)]
         data0) = report 3000 50 300 @ report 3500 50 300"
    using aggregator_reports
      [of "[new_rpm (Some 3000), new_torque_percent (Some 50), new_reference_torque (Some 300)]"
          "new_rpm (Some 3500)"] a
    by (simp add: latest_rpm_def latest_torque_percent_def latest_reference_torque_def)
  show ?thesis
    using a b n by simp
qed

section \<open>Properties of connection discovery\<close>

lemma library_calls_append: "library_calls (a @ b) = library_calls a @ library_calls b"
  by (induction a rule: library_calls.induct) simp_all

lemma find_append_cases:
  "find P (xs @ ys) = (case find P xs of Some x \<Rightarrow> Some x | None \<Rightarrow> find P ys)"
  by (induction xs) simp_all

lemma takeWhile_append_find_None:
  "find P xs = None \<Longrightarrow> takeWhile (\<lambda>x. \<not> P x) (xs @ ys) = xs @ takeWhile (\<lambda>x. \<not> P x) ys"
  by (induction xs) (simp_all split: if_splits)

lemma takeWhile_append_find_Some:
  "find P xs = Some x \<Longrightarrow> takeWhile (\<lambda>x. \<not> P x) (xs @ ys) = takeWhile (\<lambda>x. \<not> P x) xs"
  by (induction xs) (simp_all split: if_splits)

lemma try_serial_result:
  "snd (try_serial E ports) = find (live E) (map Serial ports)"
  by (induction ports) (simp_all add: Let_def split_beta split: probe.splits)

lemma try_serial_calls:
  "library_calls (fst (try_serial E ports)) =
     concat (map (probe_calls E) (probes_until_live E (map Serial ports)))"
  by (induction ports)
    (simp_all add: Let_def split_beta probes_until_live_def library_calls_append
      split: probe.splits option.splits)

lemma try_wifi_result:
  "snd (try_wifi E addrs) = find (live E) (map (\<lambda>(ip, port). Socket ip port) addrs)"
  by (induction addrs)
    (auto simp: Let_def split_beta split: probe.splits option.splits)

lemma try_wifi_calls:
  "library_calls (fst (try_wifi E addrs)) =
     concat (map (probe_calls E)
       (probes_until_live E (map (\<lambda>(ip, port). Socket ip port) addrs)))"
  by (induction addrs)
    (auto simp: Let_def split_beta probes_until_live_def library_calls_append
      split: probe.splits option.splits)


lemma connect_obd_result:
  "snd (connect_obd E) =
     (case find (live E) (candidates E) of Some c \<Rightarrow> Inr c | None \<Rightarrow> Inl (SystemExit 1))"
proof (cases "find (live E) (map Serial (comports E))")
  case None
  then show ?thesis
    using try_serial_result [of E "comports E"] try_wifi_result [of E wifi_addresses]
    by (simp add: connect_obd_def candidates_def find_append_cases Let_def split_beta
        split: option.splits)
next
  case (Some c)
  then show ?thesis
    using try_serial_result [of E "comports E"]
    by (simp add: connect_obd_def candidates_def find_append_cases Let_def split_beta
        split: option.splits)
qed

lemma connect_obd_calls:
  "library_calls (fst (connect_obd E)) =
     concat (map (probe_calls E)
       (case find (live E) (candidates E) of
          Some c \<Rightarrow> takeWhile (\<lambda>c. \<not> live E c) (candidates E) @ [c]
        | None \<Rightarrow> candidates E))"
proof (cases "find (live E) (map Serial (comports E))")
  case None
  then show ?thesis
    using try_serial_result [of E "comports E"] try_wifi_result [of E wifi_addresses]
      try_serial_calls [of E "comports E"] try_wifi_calls [of E wifi_addresses]
    by (simp add: connect_obd_def candidates_def find_append_cases Let_def split_beta
        library_calls_append probes_until_live_def takeWhile_append_find_None
        split: option.splits)
next
  case (Some c)
  then show ?thesis
    using try_serial_result [of E "comports E"] try_serial_calls [of E "comports E"]
    by (simp add: connect_obd_def candidates_def find_append_cases Let_def split_beta
        library_calls_append probes_until_live_def takeWhile_append_find_Some
        split: option.splits)
qed

lemma main_no_connection:
  "snd (connect_obd E) = Inl err \<Longrightarrow> main E deliveries e = (fst (connect_obd E), Some err)"
  by (cases "connect_obd E") (simp add: main_def)

text \<open>
  C7. \<^verbatim>\<open>connect_obd\<close> returns the session of the first live candidate in the order
  "serial devices as enumerated, then the fixed network endpoints". Its calls into the
  OBD and socket libraries are exactly the probes of the candidates before the first
  live one, in that order, followed by the probe of the live one itself: every session
  it opens and every reachability check it makes is one of these, a failed probe makes
  it advance, and it makes no call after the success. When no candidate is live it has
  probed all of them and leaves with \<^verbatim>\<open>sys.exit(1)\<close>, and the process ends with
  status 1.
\<close>

theorem connect_obd_first_live:
  "snd (connect_obd E) =
     (case find (live E) (candidates E) of Some c \<Rightarrow> Inr c | None \<Rightarrow> Inl (SystemExit 1))
   \<and> library_calls (fst (connect_obd E)) =
     concat (map (probe_calls E)
       (case find (live E) (candidates E) of
          Some c \<Rightarrow> takeWhile (\<lambda>c. \<not> live E c) (candidates E) @ [c]
        | None \<Rightarrow> candidates E))
   \<and> (find (live E) (candidates E) = None \<longrightarrow>
        dunder_main [prog] E deliveries e = (fst (connect_obd E), Exit 1))"
proof -
  have "dunder_main [prog] E deliveries e = (fst (connect_obd E), Exit 1)"
    if "find (live E) (candidates E) = None"
  proof -
    from that have "snd (connect_obd E) = Inl (SystemExit 1)"
      by (simp add: connect_obd_result)
    then have "main E deliveries e = (fst (connect_obd E), Some (SystemExit 1))"
      by (rule main_no_connection)
    then show ?thesis
      by (simp add: dunder_main_def)
  qed
  then show ?thesis
    using connect_obd_result connect_obd_calls by blast
qed

theorem connect_obd_first_live_witness:
  "snd (connect_obd E1) = Inr (Socket ''192.168.0.10'' 23)
   \<and> library_calls (fst (connect_obd E1)) =
       [Open_serial ''/dev/ttyUSB0'', Open_serial ''/dev/rfcomm0'',
        Tcp_check ''192.168.0.10'' 35000,
        Tcp_check ''192.168.0.10'' 23, Open_socket ''192.168.0.10'' 23]
   \<and> find (live E2) (candidates E2) = None
   \<and> snd (dunder_main [''main.py''] E2 [] KeyboardInterrupt) = Exit 1
   \<and> library_calls (fst (connect_obd E2)) =
       [Open_serial ''COM3'',
        Tcp_check ''192.168.0.10'' 35000, Tcp_check ''192.168.0.10'' 23,
        Tcp_check ''192.168.0.11'' 35000, Tcp_check ''192.168.0.123'' 35000]"
proof -
  have c1: "candidates E1 =
      [Serial ''/dev/ttyUSB0'', Serial ''/dev/rfcomm0'',
       Socket ''192.168.0.10'' 35000, Socket ''192.168.0.10'' 23,
       Socket ''192.168.0.11'' 35000, Socket ''192.168.0.123'' 35000]"
    by (simp add: candidates_def E1_def wifi_addresses_def)
  have c2: "candidates E2 =
      [Serial ''COM3'', Socket ''192.168.0.10'' 35000, Socket ''192.168.0.10'' 23,
       Socket ''192.168.0.11'' 35000, Socket ''192.168.0.123'' 35000]"
    by (simp add: candidates_def E2_def wifi_addresses_def)
  have l1: "find (live E1) (candidates E1) = Some (Socket ''192.168.0.10'' 23)"
    and t1: "takeWhile (\<lambda>c. \<not> live E1 c) (candidates E1) =
      [Serial ''/dev/ttyUSB0'', Serial ''/dev/rfcomm0'', Socket ''192.168.0.10'' 35000]"
    unfolding c1 by (simp_all add: E1_def)
  have l2: "find (live E2) (candidates E2) = None"
    unfolding c2 by (simp add: E2_def)
  have r1: "create_connection E1 (''192.168.0.10'', 35000) = Some ''timed out''"
    "create_connection E1 (''192.168.0.10'', 23) = None"
    by (simp_all add: E1_def)
  have r2: "create_connection E2 a = Some ''unreachable''" for a
    by (simp add: E2_def)
  have w1: "snd (connect_obd E1) = Inr (Socket ''192.168.0.10'' 23)
      \<and> library_calls (fst (connect_obd E1)) =
        [Open_serial ''/dev/ttyUSB0'', Open_serial ''/dev/rfcomm0'',
         Tcp_check ''192.168.0.10'' 35000,
         Tcp_check ''192.168.0.10'' 23, Open_socket ''192.168.0.10'' 23]"
    using connect_obd_first_live [of E1 "''main.py''" "[]" KeyboardInterrupt]
    by (simp add: l1 t1 r1)
  have w2: "snd (dunder_main [''main.py''] E2 [] KeyboardInterrupt) = Exit 1
      \<and> library_calls (fst (connect_obd E2)) =
        [Open_serial ''COM3'',
         Tcp_check ''192.168.0.10'' 35000, Tcp_check ''192.168.0.10'' 23,
         Tcp_check ''192.168.0.11'' 35000, Tcp_check ''192.168.0.123'' 35000]"
    using connect_obd_first_live [of E2 "''main.py''" "[]" KeyboardInterrupt]
    unfolding l2 by (simp add: c2 r2)
  show ?thesis
    using w1 w2 l2 by simp
qed

section \<open>Properties of the capability check\<close>

lemma try_serial_no_polling: "\<forall>a \<in> set (fst (try_serial E ports)). \<not> polling_action a"
  by (induction ports) (auto simp: Let_def split_beta split: probe.splits)

lemma try_wifi_no_polling: "\<forall>a \<in> set (fst (try_wifi E addrs)). \<not> polling_action a"
  by (induction addrs) (auto simp: Let_def split_beta split: probe.splits option.splits)

lemma connect_obd_no_polling: "\<forall>a \<in> set (fst (connect_obd E)). \<not> polling_action a"
  using try_serial_no_polling [of E "comports E"] try_wifi_no_polling [of E wifi_addresses]
  by (auto simp: connect_obd_def Let_def split_beta split: option.splits)

text \<open>
  C8. When the session is connected and one of the three required commands (RPM,
  percent torque, reference torque) is not supported, \<^verbatim>\<open>main\<close> prints the name of every
  unsupported command and leaves with \<^verbatim>\<open>sys.exit(1)\<close>: the process ends with status 1,
  and no callback has been subscribed and polling has not been started.
\<close>

theorem capability_gate:
  assumes "connect_obd E = (tr, Inr connection)"
    and "\<exists>cmd \<in> set required_commands. \<not> supports E connection cmd"
  shows "main E deliveries e =
      (tr @ [Add_custom ACTUAL_ENGINE_PERCENT_TORQUE, Add_custom ENGINE_REF_TORQUE]
       @ [Print (Text ''The following required PIDs are not supported by your vehicle:'')]
       @ map (\<lambda>cmd. Print (Text (''- '' @ name cmd)))
           (filter (\<lambda>cmd. \<not> supports E connection cmd) required_commands)
       @ [Print (Text ''Cannot calculate horsepower based on RPM and Torque.'')],
       Some (SystemExit 1))
    \<and> (\<forall>a \<in> set (fst (main E deliveries e)). \<not> polling_action a)
    \<and> snd (dunder_main [prog] E deliveries e) = Exit 1"
proof -
  let ?un = "filter (\<lambda>cmd. \<not> supports E connection cmd) required_commands"
  from assms(2) have ne: "?un \<noteq> []"
    by (simp add: filter_empty_conv)
  have m: "main E deliveries e =
      (tr @ [Add_custom ACTUAL_ENGINE_PERCENT_TORQUE, Add_custom ENGINE_REF_TORQUE]
       @ [Print (Text ''The following required PIDs are not supported by your vehicle:'')]
       @ map (\<lambda>cmd. Print (Text (''- '' @ name cmd))) ?un
       @ [Print (Text ''Cannot calculate horsepower based on RPM and Torque.'')],
       Some (SystemExit 1))"
    using assms(1) ne by (simp add: main_def Let_def)
  have "\<forall>a \<in> set tr. \<not> polling_action a"
    using connect_obd_no_polling [of E] assms(1) by simp
  then have np: "\<forall>a \<in> set (fst (main E deliveries e)). \<not> polling_action a"
    unfolding m by auto
  have "snd (dunder_main [prog] E deliveries e) = Exit 1"
    by (simp add: dunder_main_def m)
  with m np show ?thesis by blast
qed


lemma connect_obd_E3:
  "connect_obd E3 =
     ([Print_ports [''COM3''],
       Print (Text ''Trying serial port COM3''),
       Open_serial ''COM3'',
       Print (Text ''Connected to OBD-II device on serial port COM3'')],
      Inr (Serial ''COM3''))"
  by (simp add: connect_obd_def E3_def)

lemma connect_obd_E4:
  "connect_obd E4 =
     ([Print_ports [''COM3''],
       Print (Text ''Trying serial port COM3''),
       Open_serial ''COM3'',
       Print (Text ''Connected to OBD-II device on serial port COM3'')],
      Inr (Serial ''COM3''))"
  by (simp add: connect_obd_def E4_def)

theorem capability_gate_witness:
  "connect_obd E3 =
     ([Print_ports [''COM3''],
       Print (Text ''Trying serial port COM3''),
       Open_serial ''COM3'',
       Print (Text ''Connected to OBD-II device on serial port COM3'')],
      Inr (Serial ''COM3''))
   \<and> (\<exists>cmd \<in> set required_commands. \<not> supports E3 (Serial ''COM3'') cmd)
   \<and> main E3 [] KeyboardInterrupt =
     ([Print_ports [''COM3''],
       Print (Text ''Trying serial port COM3''),
       Open_serial ''COM3'',
       Print (Text ''Connected to OBD-II device on serial port COM3''),
       Add_custom ACTUAL_ENGINE_PERCENT_TORQUE,
       Add_custom ENGINE_REF_TORQUE,
       Print (Text ''The following required PIDs are not supported by your vehicle:''),
       Print (Text ''- ENGINE_REF_TORQUE''),
       Print (Text ''Cannot calculate horsepower based on RPM and Torque.'')],
      Some (SystemExit 1))
   \<and> snd (dunder_main [''main.py''] E3 [] KeyboardInterrupt) = Exit 1"
proof -
  have u: "\<exists>cmd \<in> set required_commands. \<not> supports E3 (Serial ''COM3'') cmd"
    by (simp add: required_commands_def E3_def)
  have f: "filter (\<lambda>cmd. \<not> supports E3 (Serial ''COM3'') cmd) required_commands
      = [ENGINE_REF_TORQUE]"
    by (simp add: required_commands_def E3_def)
  show ?thesis
    using capability_gate [OF connect_obd_E3 u, of "[]" KeyboardInterrupt "''main.py''"] u
    by (simp add: f connect_obd_E3)
qed

section \<open>Interruption of the polling phase\<close>

text \<open>
  Whatever exception ends the wait, \<^verbatim>\<open>connection.stop()\<close> is the last action of
  \<^verbatim>\<open>main\<close>: the \<^verbatim>\<open>finally\<close> clause runs on every path out of the polling phase.
\<close>

lemma wait_forever_stops: "last (fst (wait_forever e)) = Stop"
  by (simp add: wait_forever_def)

text \<open>
  If \<^verbatim>\<open>KeyboardInterrupt\<close> were raised at the \<^verbatim>\<open>await\<close>, the handler would print
  "Stopping...", polling would be stopped and the process would end with status 0.
\<close>

lemma keyboard_interrupt_at_await:
  "dunder_main [''main.py''] E4 [] KeyboardInterrupt =
     ([Print_ports [''COM3''],
       Print (Text ''Trying serial port COM3''),
       Open_serial ''COM3'',
       Print (Text ''Connected to OBD-II device on serial port COM3''),
       Add_custom ACTUAL_ENGINE_PERCENT_TORQUE,
       Add_custom ENGINE_REF_TORQUE,
       Watch commands_RPM,
       Watch ACTUAL_ENGINE_PERCENT_TORQUE,
       Watch ENGINE_REF_TORQUE,
       Set_poll_interval (1 / 10),
       Start,
       Print (Text ''Stopping...''),
       Stop],
      Exit 0)"
  by (simp add: dunder_main_def main_def connect_obd_E4 required_commands_def
      wait_forever_def Let_def) (simp add: E4_def)

text \<open>
  C9. The claim is that an operator interrupt during the polling phase stops polling
  and ends the process with status 0. Under \<^verbatim>\<open>asyncio.run\<close> the interrupt reaches the
  coroutine suspended at the \<^verbatim>\<open>await\<close> as a cancellation of the main task, that is as
  \<^verbatim>\<open>CancelledError\<close>, which the handler \<^verbatim>\<open>except KeyboardInterrupt\<close> does not catch.
  On that run polling is stopped by the \<^verbatim>\<open>finally\<close> clause, "Stopping..." is not
  printed, and the process ends with an uncaught \<^verbatim>\<open>KeyboardInterrupt\<close>, not with
  status 0.
\<close>

theorem interrupt_cancels_main_task:
  "dunder_main [''main.py''] E4 [] CancelledError =
     ([Print_ports [''COM3''],
       Print (Text ''Trying serial port COM3''),
       Open_serial ''COM3'',
       Print (Text ''Connected to OBD-II device on serial port COM3''),
       Add_custom ACTUAL_ENGINE_PERCENT_TORQUE,
       Add_custom ENGINE_REF_TORQUE,
       Watch commands_RPM,
       Watch ACTUAL_ENGINE_PERCENT_TORQUE,
       Watch ENGINE_REF_TORQUE,
       Set_poll_interval (1 / 10),
       Start,
       Stop],
      Uncaught KeyboardInterrupt)"
  by (simp add: dunder_main_def main_def connect_obd_E4 required_commands_def
      wait_forever_def Let_def) (simp add: E4_def)

end
